theory Spec2Isabelle
  imports Main
begin

section \<open>Text\<close>

text \<open>
  Python \<open>str\<close> values are modelled by \<open>string\<close>, the UTF-8 encoding of the text: an
  ASCII character is one \<open>char\<close>, a character outside ASCII is the two to four bytes of
  its encoding. \<open>lower\<close> maps the ASCII capitals and leaves every other byte as it is; no
  character outside ASCII lower-cases to a character of the three command literals, so
  equality with a command literal is decided as in Python. \<open>strip\<close> removes every
  character for which \<open>str.isspace()\<close> holds, the ones outside ASCII by their encodings.
\<close>

definition lower_char :: "char \<Rightarrow> char" where
  "lower_char c =
     (case map_of (zip ''ABCDEFGHIJKLMNOPQRSTUVWXYZ'' ''abcdefghijklmnopqrstuvwxyz'') c of
        None \<Rightarrow> c
      | Some l \<Rightarrow> l)"

definition lower :: "string \<Rightarrow> string" where
  \<comment> \<open>\<open>str.lower()\<close>\<close>
  "lower s = map lower_char s"

definition whitespace :: "string list" where
  \<comment> \<open>the characters for which \<open>str.isspace()\<close> holds, each in UTF-8: U+0009..U+000D,
      U+001C..U+001F, U+0020, U+0085, U+00A0, U+1680, U+2000..U+200A, U+2028, U+2029,
      U+202F, U+205F, U+3000\<close>
  "whitespace =
     [[CHR 0x09], [CHR 0x0A], [CHR 0x0B], [CHR 0x0C], [CHR 0x0D],
      [CHR 0x1C], [CHR 0x1D], [CHR 0x1E], [CHR 0x1F], [CHR 0x20],
      [CHR 0xC2, CHR 0x85], [CHR 0xC2, CHR 0xA0],
      [CHR 0xE1, CHR 0x9A, CHR 0x80],
      [CHR 0xE2, CHR 0x80, CHR 0x80], [CHR 0xE2, CHR 0x80, CHR 0x81],
      [CHR 0xE2, CHR 0x80, CHR 0x82], [CHR 0xE2, CHR 0x80, CHR 0x83],
      [CHR 0xE2, CHR 0x80, CHR 0x84], [CHR 0xE2, CHR 0x80, CHR 0x85],
      [CHR 0xE2, CHR 0x80, CHR 0x86], [CHR 0xE2, CHR 0x80, CHR 0x87],
      [CHR 0xE2, CHR 0x80, CHR 0x88], [CHR 0xE2, CHR 0x80, CHR 0x89],
      [CHR 0xE2, CHR 0x80, CHR 0x8A],
      [CHR 0xE2, CHR 0x80, CHR 0xA8], [CHR 0xE2, CHR 0x80, CHR 0xA9],
      [CHR 0xE2, CHR 0x80, CHR 0xAF], [CHR 0xE2, CHR 0x81, CHR 0x9F],
      [CHR 0xE3, CHR 0x80, CHR 0x80]]"

definition leading :: "string list \<Rightarrow> string \<Rightarrow> string option" where
  \<comment> \<open>the first of the given texts that \<open>s\<close> starts with\<close>
  "leading ws s = find (\<lambda>w. w \<noteq> [] \<and> take (length w) s = w) ws"

function drop_leading :: "string list \<Rightarrow> string \<Rightarrow> string" where
  \<comment> \<open>\<open>s\<close> without the given texts at its start, as often as one is there\<close>
  "drop_leading ws s =
     (case leading ws s of
        None \<Rightarrow> s
      | Some w \<Rightarrow> drop_leading ws (drop (length w) s))"
  by pat_completeness auto
termination
proof (relation "measure (\<lambda>(ws, s). length s)")
  show "wf (measure (\<lambda>(ws, s). length s))" by simp
next
  fix ws :: "string list" and s w :: string
  assume "leading ws s = Some w"
  then have "w \<noteq> [] \<and> take (length w) s = w"
    by (auto simp add: leading_def find_Some_iff)
  then have "0 < length w" and "length w \<le> length s"
    by (auto simp add: min_def dest: arg_cong[where f = length] split: if_splits)
  then have "length s - length w < length s"
    by arith
  then show "((ws, drop (length w) s), (ws, s)) \<in> measure (\<lambda>(ws, s). length s)"
    by simp
qed

declare drop_leading.simps [simp del]

definition strip :: "string \<Rightarrow> string" where
  \<comment> \<open>\<open>str.strip()\<close>: the whitespace characters at the start and at the end removed; the
      end is the start of the reversed text, where the encodings are reversed too\<close>
  "strip s = rev (drop_leading (map rev whitespace) (rev (drop_leading whitespace s)))"

fun remove_all :: "string \<Rightarrow> string \<Rightarrow> string" where
  \<comment> \<open>\<open>s.replace(old, '')\<close> for a non-empty \<open>old\<close>: every occurrence of \<open>old\<close>,
      found from left to right without overlap, is deleted\<close>
  "remove_all old [] = []"
| "remove_all old (c # cs) =
     (if old \<noteq> [] \<and> take (length old) (c # cs) = old
      then remove_all old (drop (length old) (c # cs))
      else c # remove_all old cs)"

definition truthy :: "string option \<Rightarrow> bool" where
  \<comment> \<open>Python truth of a value that is \<open>None\<close> or a \<open>str\<close>\<close>
  "truthy v = (case v of None \<Rightarrow> False | Some t \<Rightarrow> t \<noteq> [])"

definition py_str :: "string option \<Rightarrow> string" where
  \<comment> \<open>what an f-string prints for a value that may be \<open>None\<close>\<close>
  "py_str v = (case v of None \<Rightarrow> ''None'' | Some t \<Rightarrow> t)"

section \<open>Data\<close>

record message =
  role :: string
  content :: string

text \<open>
  The three settings \<open>process_message\<close> reads from \<open>self.config\<close>. A field is \<open>None\<close>
  when the key is absent; a number is carried by the text \<open>str()\<close> gives for it.
\<close>

record config =
  model :: "string option"
  temperature :: "string option"
  max_tokens :: "string option"

text \<open>One call of \<open>openai.ChatCompletion.create\<close>, with its keyword arguments.\<close>

record request =
  req_model :: string
  req_messages :: "message list"
  req_temperature :: string
  req_max_tokens :: string

text \<open>
  What the call does: it raises an exception \<open>e\<close> (carried by \<open>str(e)\<close>), or it returns a
  response, carried by the message contents of its \<open>choices\<close> in order.
\<close>

datatype completion = Raises string | Response "string list"

text \<open>
  The state the core reads and writes: the fields \<open>config\<close>, \<open>conversations\<close> and
  \<open>user_details\<close> of \<open>WhatsAppOpenAIBot\<close>, the module globals \<open>openai.api_key\<close> and
  \<open>message_queue\<close>, the content of \<open>user_details.json\<close> (\<open>None\<close>: no such file), and the
  requests sent to the completion service so far.
\<close>

record bot =
  config :: config
  conversations :: "string \<rightharpoonup> message list"
  user_details :: "string \<rightharpoonup> string"
  api_key :: "string option"
  message_queue :: "string list"
  user_file :: "(string \<rightharpoonup> string) option"
  completion_calls :: "request list"

text \<open>
  What one call meets outside the program: the clock (\<open>datetime.now()\<close> already formatted),
  the two Twilio environment variables, whether \<open>Client(sid, token)\<close> returns rather than
  raises, whether \<open>user_details.json\<close> can be written, and the completion service.
\<close>

record env =
  now :: string
  twilio_account_sid :: "string option"
  twilio_auth_token :: "string option"
  twilio_client_ok :: bool
  user_file_writable :: bool
  chat_completion :: "request \<Rightarrow> completion"

section \<open>User directory\<close>

definition save_user_details :: "env \<Rightarrow> bot \<Rightarrow> bot" where
  \<comment> \<open>a failed write is printed and swallowed\<close>
  "save_user_details e s =
     (if user_file_writable e then s\<lparr>user_file := Some (user_details s)\<rparr> else s)"

definition get_user_name :: "env \<Rightarrow> string \<Rightarrow> bot \<Rightarrow> string \<times> bot" where
  "get_user_name e user_id s =
     (case user_details s user_id of
        Some name \<Rightarrow> (name, s)
      | None \<Rightarrow>
          (let phone = remove_all ''whatsapp:'' user_id
           in if truthy (twilio_account_sid e) \<and> truthy (twilio_auth_token e)
              then if twilio_client_ok e
                   then (phone,
                         save_user_details e
                           (s\<lparr>user_details := (user_details s)(user_id \<mapsto> phone)\<rparr>))
                   else (phone, s)
              else (phone, s)))"

section \<open>Conversation store\<close>

definition system_message :: message where
  "system_message =
     \<lparr>role = ''system'', content = ''You are a helpful assistant responding via WhatsApp.''\<rparr>"

definition get_conversation_history :: "string \<Rightarrow> bot \<Rightarrow> message list \<times> bot" where
  "get_conversation_history user_id s =
     (case conversations s user_id of
        None \<Rightarrow> ([system_message],
                  s\<lparr>conversations := (conversations s)(user_id \<mapsto> [system_message])\<rparr>)
      | Some h \<Rightarrow> (h, s))"

definition clear_conversation :: "string \<Rightarrow> bot \<Rightarrow> string \<times> bot" where
  "clear_conversation user_id s =
     (case conversations s user_id of
        Some h \<Rightarrow> (''Conversation history cleared. What would you like to talk about?'',
                   s\<lparr>conversations := (conversations s)(user_id \<mapsto> [system_message])\<rparr>)
      | None \<Rightarrow> (''No conversation history found.'', s))"

section \<open>Message processing\<close>

definition put :: "string \<Rightarrow> bot \<Rightarrow> bot" where
  \<comment> \<open>\<open>message_queue.put(line)\<close>\<close>
  "put line s = s\<lparr>message_queue := message_queue s @ [line]\<rparr>"

definition received_line :: "string \<Rightarrow> string \<Rightarrow> string \<Rightarrow> string" where
  "received_line timestamp user_name user_message =
     ''['' @ timestamp @ ''] Received from '' @ user_name @ '': '' @ user_message"

definition sent_line :: "string \<Rightarrow> string \<Rightarrow> string \<Rightarrow> string" where
  "sent_line timestamp user_name response =
     ''['' @ timestamp @ ''] Sent to '' @ user_name @ '': '' @ response"

definition processing_line :: "string \<Rightarrow> string \<Rightarrow> string" where
  "processing_line timestamp user_name =
     ''['' @ timestamp @ ''] Processing request for '' @ user_name @ ''...''"

definition error_line :: "string \<Rightarrow> string \<Rightarrow> string" where
  "error_line timestamp error_message = ''['' @ timestamp @ ''] ERROR: '' @ error_message"

definition help_text :: string where
  "help_text =
     ''WhatsApp OpenAI Bot Help:'' @ [CHR 0x0A] @
     ''- !clear: Clear conversation history'' @ [CHR 0x0A] @
     ''- !help: Show this help message'' @ [CHR 0x0A] @
     ''- !info: Show current bot configuration'' @ [CHR 0x0A] @
     ''Just type a message to chat with the AI assistant!''"

definition info_text :: "config \<Rightarrow> string" where
  "info_text c =
     ''Bot Configuration:'' @ [CHR 0x0A] @
     ''- Model: '' @ py_str (model c) @ [CHR 0x0A] @
     ''- Temperature: '' @ py_str (temperature c) @ [CHR 0x0A] @
     ''- Max tokens: '' @ py_str (max_tokens c)"

definition api_key_warning :: string where
  \<comment> \<open>the text opens with U+26A0 U+FE0F, here in UTF-8\<close>
  "api_key_warning =
     [CHR 0xE2, CHR 0x9A, CHR 0xA0, CHR 0xEF, CHR 0xB8, CHR 0x8F] @
     '' API key not set. Please contact the administrator.''"

definition make_request :: "config \<Rightarrow> message list \<Rightarrow> request" where
  \<comment> \<open>the arguments of \<open>openai.ChatCompletion.create\<close>, with the defaults of \<open>config.get\<close>\<close>
  "make_request c conversation =
     \<lparr>req_model = (case model c of None \<Rightarrow> ''gpt-3.5-turbo'' | Some m \<Rightarrow> m),
      req_messages = conversation,
      req_temperature = (case temperature c of None \<Rightarrow> ''0.7'' | Some t \<Rightarrow> t),
      req_max_tokens = (case max_tokens c of None \<Rightarrow> ''1000'' | Some n \<Rightarrow> n)\<rparr>"

definition store :: "string \<Rightarrow> message list \<Rightarrow> bot \<Rightarrow> bot" where
  \<comment> \<open>\<open>self.conversations[user_id] = conversation\<close>\<close>
  "store user_id conversation s =
     s\<lparr>conversations := (conversations s)(user_id \<mapsto> conversation)\<rparr>"

definition trim :: "message list \<Rightarrow> message list" where
  \<comment> \<open>\<open>[conversation[0]] + conversation[-19:]\<close> when \<open>len(conversation) > 20\<close>\<close>
  "trim conversation =
     (if length conversation > 20
      then hd conversation # drop (length conversation - 19) conversation
      else conversation)"

text \<open>
  The body of the \<open>try\<close> block of \<open>process_message\<close>. \<open>Inl e\<close> is an exception raised in
  the body, with \<open>str(e)\<close>; the state returned with it is the state at the raise.

  The local \<open>conversation\<close> is the list object held in \<open>self.conversations[user_id]\<close>, so
  each \<open>conversation.append\<close> changes the stored history: the model writes it through
  with \<open>store\<close>. Every statement that can raise comes after \<open>timestamp\<close> is bound.
\<close>

definition process_message_body ::
  "env \<Rightarrow> string \<Rightarrow> string \<Rightarrow> bot \<Rightarrow> (string + string) \<times> bot" where
  "process_message_body e user_id user_message s =
     (let (user_name, s1) = get_user_name e user_id s;
          timestamp = now e;
          s2 = put (received_line timestamp user_name user_message) s1
      in if lower user_message = ''!clear'' then
           (let (response, s3) = clear_conversation user_id s2
            in (Inr response, put (sent_line timestamp user_name response) s3))
         else if lower user_message = ''!help'' then
           (Inr help_text, put (sent_line timestamp user_name help_text) s2)
         else if lower user_message = ''!info'' then
           (let response = info_text (config s2)
            in (Inr response, put (sent_line timestamp user_name response) s2))
         else
           (let (conversation, s3) = get_conversation_history user_id s2;
                conversation1 = conversation @ [\<lparr>role = ''user'', content = user_message\<rparr>];
                s4 = store user_id conversation1 s3
            in if \<not> truthy (api_key s4) then
                 (Inr api_key_warning, put (sent_line timestamp user_name api_key_warning) s4)
               else
                 (let s5 = put (processing_line timestamp user_name) s4;
                      req = make_request (config s5) conversation1;
                      s6 = s5\<lparr>completion_calls := completion_calls s5 @ [req]\<rparr>
                  in case chat_completion e req of
                       Raises err \<Rightarrow> (Inl err, s6)
                     | Response [] \<Rightarrow> (Inl ''list index out of range'', s6)
                     | Response (assistant_message # _) \<Rightarrow>
                         (let conversation2 =
                                conversation1 @ [\<lparr>role = ''assistant'', content = assistant_message\<rparr>];
                              s7 = store user_id conversation2 s6;
                              s8 = (if length conversation2 > 20
                                    then store user_id (trim conversation2) s7
                                    else s7)
                          in (Inr assistant_message,
                              put (sent_line timestamp user_name assistant_message) s8)))))"

definition process_message :: "env \<Rightarrow> string \<Rightarrow> string \<Rightarrow> bot \<Rightarrow> string \<times> bot" where
  \<comment> \<open>the \<open>try\<close> block with its \<open>except Exception\<close> handler\<close>
  "process_message e user_id user_message s =
     (case process_message_body e user_id user_message s of
        (Inr response, s') \<Rightarrow> (response, s')
      | (Inl err, s') \<Rightarrow>
          (let error_message = ''Error: '' @ err
           in (''Sorry, I encountered an error: '' @ error_message,
               put (error_line (now e) error_message) s')))"

definition whatsapp_webhook :: "env \<Rightarrow> string \<Rightarrow> string \<Rightarrow> bot \<Rightarrow> string \<times> bot" where
  \<comment> \<open>\<open>sender\<close> and \<open>body\<close> are the form values \<open>From\<close> and \<open>Body\<close>; the result is the
      text handed to \<open>msg.body\<close>, before the Twilio library wraps it\<close>
  "whatsapp_webhook e sender body s = process_message e sender (strip body) s"

section \<open>Notions used to state the properties\<close>

definition is_command :: "string \<Rightarrow> bool" where
  \<comment> \<open>the three tests of \<open>process_message\<close>, taken together\<close>
  "is_command user_message =
     (lower user_message = ''!clear'' \<or> lower user_message = ''!help'' \<or>
      lower user_message = ''!info'')"

definition user_turn :: "string \<Rightarrow> message" where
  "user_turn user_message = \<lparr>role = ''user'', content = user_message\<rparr>"

definition assistant_turn :: "string \<Rightarrow> message" where
  "assistant_turn assistant_message = \<lparr>role = ''assistant'', content = assistant_message\<rparr>"

definition history :: "string \<Rightarrow> bot \<Rightarrow> message list" where
  \<comment> \<open>what \<open>get_conversation_history\<close> returns\<close>
  "history user_id s = fst (get_conversation_history user_id s)"

definition pending_request :: "string \<Rightarrow> string \<Rightarrow> bot \<Rightarrow> request" where
  \<comment> \<open>the request \<open>process_message\<close> builds for a chat message: the history with the new
      user message at its end\<close>
  "pending_request user_id user_message s =
     make_request (config s) (history user_id s @ [user_turn user_message])"

fun occurs :: "string \<Rightarrow> string \<Rightarrow> bool" where
  \<comment> \<open>\<open>old in s\<close>: the text \<open>old\<close> occurs somewhere in \<open>s\<close>\<close>
  "occurs old [] = (old = [])"
| "occurs old (c # cs) = (take (length old) (c # cs) = old \<or> occurs old cs)"

definition failure :: "completion \<Rightarrow> string option" where
  \<comment> \<open>the text of the exception that the call, or reading \<open>choices[0]\<close> of its response,
      raises in \<open>process_message\<close>; \<open>None\<close> when there is an answer\<close>
  "failure r =
     (case r of
        Raises err \<Rightarrow> Some err
      | Response [] \<Rightarrow> Some ''list index out of range''
      | Response (a # _) \<Rightarrow> None)"

definition answers :: "completion \<Rightarrow> string \<Rightarrow> bool" where
  \<comment> \<open>the call returns, and \<open>choices[0]\<close> carries the given text\<close>
  "answers r assistant_message =
     (case r of
        Raises err \<Rightarrow> False
      | Response [] \<Rightarrow> False
      | Response (a # _) \<Rightarrow> a = assistant_message)"

definition successful_turn :: "env \<Rightarrow> string \<Rightarrow> string \<Rightarrow> string \<Rightarrow> bot \<Rightarrow> bool" where
  \<comment> \<open>a chat message that gets the given answer from the completion service\<close>
  "successful_turn e user_id user_message assistant_message s =
     (\<not> is_command user_message \<and> truthy (api_key s) \<and>
      answers (chat_completion e (pending_request user_id user_message s)) assistant_message)"

text \<open>A run of calls for one user: each turn is the environment, the message, the answer.\<close>

fun run_turns :: "string \<Rightarrow> (env \<times> string \<times> string) list \<Rightarrow> bot \<Rightarrow> bot" where
  "run_turns user_id [] s = s"
| "run_turns user_id ((e, user_message, a) # ts) s =
     run_turns user_id ts (snd (process_message e user_id user_message s))"

fun successful_turns :: "string \<Rightarrow> (env \<times> string \<times> string) list \<Rightarrow> bot \<Rightarrow> bool" where
  "successful_turns user_id [] s = True"
| "successful_turns user_id ((e, user_message, a) # ts) s =
     (successful_turn e user_id user_message a s \<and>
      successful_turns user_id ts (snd (process_message e user_id user_message s)))"

text \<open>
  The store's contract in the words of the specification: \<open>appendTurn\<close> adds a user message
  and then an assistant message, and the trimming policy is applied after every append.
\<close>

definition spec_append_turn :: "message list \<Rightarrow> string \<times> string \<Rightarrow> message list" where
  "spec_append_turn h t =
     (let h' = h @ [user_turn (fst t), assistant_turn (snd t)]
      in if length h' > 20 then h' ! 0 # drop (length h' - 19) h' else h')"

definition spec_append_turns :: "message list \<Rightarrow> (string \<times> string) list \<Rightarrow> message list" where
  "spec_append_turns h ts = foldl spec_append_turn h ts"

subsection \<open>Concrete states and environments\<close>

definition fresh_bot :: bot where
  \<comment> \<open>no credential, no conversation, no known user\<close>
  "fresh_bot =
     \<lparr>config = \<lparr>model = Some ''gpt-x'', temperature = Some ''0.5'', max_tokens = Some ''200''\<rparr>,
      conversations = Map.empty,
      user_details = Map.empty,
      api_key = None,
      message_queue = [],
      user_file = None,
      completion_calls = []\<rparr>"

definition keyed_bot :: bot where
  "keyed_bot = fresh_bot\<lparr>api_key := Some ''sk-test''\<rparr>"

definition answering_env :: env where
  \<comment> \<open>no Twilio credentials; the completion service answers\<close>
  "answering_env =
     \<lparr>now = ''2024-01-01 12:00:00'',
      twilio_account_sid = None,
      twilio_auth_token = None,
      twilio_client_ok = True,
      user_file_writable = True,
      chat_completion = (\<lambda>r. Response [''Hi!''])\<rparr>"

definition failing_env :: env where
  \<comment> \<open>the completion service raises\<close>
  "failing_env = answering_env\<lparr>chat_completion := (\<lambda>r. Raises ''Connection timed out'')\<rparr>"

definition twilio_env :: env where
  \<comment> \<open>both Twilio credentials are set\<close>
  "twilio_env =
     answering_env\<lparr>twilio_account_sid := Some ''AC123'', twilio_auth_token := Some ''token''\<rparr>"

definition seeded_bot :: bot where
  \<comment> \<open>a credential is set and user A has the one-message history\<close>
  "seeded_bot = keyed_bot\<lparr>conversations := [''A'' \<mapsto> [system_message]]\<rparr>"

definition known_bot :: bot where
  \<comment> \<open>the directory knows one identifier\<close>
  "known_bot = fresh_bot\<lparr>user_details := [''whatsapp:+15551234'' \<mapsto> ''Ann'']\<rparr>"

definition ten_turns :: "(env \<times> string \<times> string) list" where
  \<comment> \<open>ten messages, each answered\<close>
  "ten_turns =
     [(answering_env, ''m1'', ''Hi!''), (answering_env, ''m2'', ''Hi!''),
      (answering_env, ''m3'', ''Hi!''), (answering_env, ''m4'', ''Hi!''),
      (answering_env, ''m5'', ''Hi!''), (answering_env, ''m6'', ''Hi!''),
      (answering_env, ''m7'', ''Hi!''), (answering_env, ''m8'', ''Hi!''),
      (answering_env, ''m9'', ''Hi!''), (answering_env, ''m10'', ''Hi!'')]"

section \<open>What each path of \<open>process_message\<close> does\<close>

lemma get_user_name_frame:
  "conversations (snd (get_user_name e u s)) = conversations s"
  "api_key (snd (get_user_name e u s)) = api_key s"
  "config (snd (get_user_name e u s)) = config s"
  "completion_calls (snd (get_user_name e u s)) = completion_calls s"
  "message_queue (snd (get_user_name e u s)) = message_queue s"
  by (simp_all add: get_user_name_def save_user_details_def Let_def split: option.splits)

lemma body_no_key:
  assumes "\<not> is_command m" "\<not> truthy (api_key s)"
  shows "fst (process_message_body e u m s) = Inr api_key_warning"
    and "conversations (snd (process_message_body e u m s)) = (conversations s)(u \<mapsto> history u s @ [user_turn m])"
    and "completion_calls (snd (process_message_body e u m s)) = completion_calls s"
  using assms
  by (simp_all add: process_message_body_def is_command_def Let_def split_beta user_turn_def
        history_def store_def put_def get_conversation_history_def get_user_name_frame split: option.splits)

lemma body_failure:
  assumes "\<not> is_command m" "truthy (api_key s)"
    and "failure (chat_completion e (pending_request u m s)) = Some d"
  shows "fst (process_message_body e u m s) = Inl d"
    and "conversations (snd (process_message_body e u m s)) = (conversations s)(u \<mapsto> history u s @ [user_turn m])"
    and "completion_calls (snd (process_message_body e u m s)) = completion_calls s @ [pending_request u m s]"
  using assms
  by (simp_all add: process_message_body_def is_command_def Let_def split_beta user_turn_def
        history_def store_def put_def get_conversation_history_def get_user_name_frame
        pending_request_def failure_def
        split: option.splits completion.splits list.splits)

lemma body_answer:
  assumes "\<not> is_command m" "truthy (api_key s)"
    and "answers (chat_completion e (pending_request u m s)) a"
  shows "fst (process_message_body e u m s) = Inr a"
    and "conversations (snd (process_message_body e u m s)) =
           (conversations s)(u \<mapsto> trim (history u s @ [user_turn m, assistant_turn a]))"
    and "completion_calls (snd (process_message_body e u m s)) = completion_calls s @ [pending_request u m s]"
  using assms
  by (simp_all add: process_message_body_def is_command_def Let_def split_beta user_turn_def assistant_turn_def
        history_def store_def put_def get_conversation_history_def get_user_name_frame
        pending_request_def answers_def trim_def
        split: option.splits completion.splits list.splits)

lemma process_message_returns:
  assumes "fst (process_message_body e u m s) = Inr r"
  shows "process_message e u m s = (r, snd (process_message_body e u m s))"
  using assms by (cases "process_message_body e u m s") (simp add: process_message_def)

lemma process_message_catches:
  assumes "fst (process_message_body e u m s) = Inl d"
  shows "process_message e u m s =
           (''Sorry, I encountered an error: '' @ ''Error: '' @ d,
            put (error_line (now e) (''Error: '' @ d)) (snd (process_message_body e u m s)))"
  using assms by (cases "process_message_body e u m s") (simp add: process_message_def Let_def)

lemma put_frame:
  "conversations (put l s) = conversations s"
  "completion_calls (put l s) = completion_calls s"
  "user_details (put l s) = user_details s"
  "api_key (put l s) = api_key s"
  "config (put l s) = config s"
  by (simp_all add: put_def)

lemma body_api_key: "api_key (snd (process_message_body e u m s)) = api_key s"
  by (simp add: process_message_body_def Let_def split_beta put_def store_def
        get_conversation_history_def clear_conversation_def get_user_name_frame
        split: option.splits completion.splits list.splits)

lemma process_message_api_key: "api_key (snd (process_message e u m s)) = api_key s"
  by (cases "process_message_body e u m s" rule: prod.exhaust; cases "fst (process_message_body e u m s)")
     (use body_api_key[of e u m s] in \<open>auto simp add: process_message_def Let_def put_def\<close>)

section \<open>Properties\<close>

text \<open>The definitions a concrete call is evaluated with.\<close>

lemmas eval_defs =
  process_message_def process_message_body_def get_user_name_def save_user_details_def
  get_conversation_history_def clear_conversation_def put_def store_def trim_def
  make_request_def truthy_def lower_def lower_char_def is_command_def
  fresh_bot_def keyed_bot_def seeded_bot_def answering_env_def failing_env_def twilio_env_def
  user_turn_def assistant_turn_def history_def pending_request_def failure_def answers_def
  Let_def

subsection \<open>No credential\<close>

text \<open>
  C1, as stated, fails: with no credential set, the first message "Hello" of user A gets
  the warning, but the stored history of A is then the system message followed by the
  user message "Hello", not the system message alone.
\<close>

theorem no_credential_history_counterexample:
  "\<not> is_command ''Hello'' \<and> \<not> truthy (api_key fresh_bot) \<and>
   conversations fresh_bot ''A'' = None \<and>
   conversations (snd (process_message answering_env ''A'' ''Hello'' fresh_bot)) ''A'' =
     Some [system_message, \<lparr>role = ''user'', content = ''Hello''\<rparr>] \<and>
   conversations (snd (process_message answering_env ''A'' ''Hello'' fresh_bot)) ''A'' \<noteq>
     Some [system_message]"
  by (simp add: eval_defs)

text \<open>
  C1, amended: with no credential set, a message that is not a command gets the fixed
  warning as its reply, no request is sent to the completion service, and the stored
  history of the user becomes the history that was fetched (the system message alone for
  a user without one) followed by the user message; no other user's history changes.
\<close>

theorem no_credential_reply:
  assumes "\<not> is_command m" and "\<not> truthy (api_key s)"
  shows "fst (process_message e u m s) = api_key_warning \<and>
         completion_calls (snd (process_message e u m s)) = completion_calls s \<and>
         conversations (snd (process_message e u m s)) =
           (conversations s)(u \<mapsto> history u s @ [user_turn m])"
  using body_no_key[OF assms, of e u]
  by (simp add: process_message_returns)

text \<open>The first message of user A, with no credential.\<close>

theorem no_credential_reply_witness:
  "\<not> is_command ''Hello'' \<and> \<not> truthy (api_key fresh_bot) \<and>
   fst (process_message answering_env ''A'' ''Hello'' fresh_bot) = api_key_warning \<and>
   completion_calls (snd (process_message answering_env ''A'' ''Hello'' fresh_bot)) = [] \<and>
   conversations (snd (process_message answering_env ''A'' ''Hello'' fresh_bot)) =
     [''A'' \<mapsto> [system_message, user_turn ''Hello'']]"
proof -
  have c: "\<not> is_command ''Hello''"
    by (simp add: is_command_def lower_def lower_char_def)
  have k: "\<not> truthy (api_key fresh_bot)"
    by (simp add: truthy_def fresh_bot_def)
  have h: "history ''A'' fresh_bot = [system_message]"
    by (simp add: history_def get_conversation_history_def fresh_bot_def)
  have q: "completion_calls fresh_bot = []" "conversations fresh_bot = Map.empty"
    by (simp_all add: fresh_bot_def)
  show ?thesis
    using no_credential_reply[OF c k, of answering_env "''A''"] c k h q by simp
qed

subsection \<open>When the two sides of a turn are stored\<close>

text \<open>
  C3, as stated, fails: user A has the one-message history, the completion call raises,
  and the stored history of A is afterwards the system message followed by the lone user
  message, not what it was before the call.
\<close>

theorem failed_call_history_counterexample:
  "\<not> is_command ''Hello'' \<and> truthy (api_key seeded_bot) \<and>
   chat_completion failing_env (pending_request ''A'' ''Hello'' seeded_bot) =
     Raises ''Connection timed out'' \<and>
   conversations seeded_bot ''A'' = Some [system_message] \<and>
   conversations (snd (process_message failing_env ''A'' ''Hello'' seeded_bot)) ''A'' =
     Some [system_message, \<lparr>role = ''user'', content = ''Hello''\<rparr>] \<and>
   conversations (snd (process_message failing_env ''A'' ''Hello'' seeded_bot)) ''A'' \<noteq>
     conversations seeded_bot ''A''"
  by (simp add: eval_defs)

text \<open>
  C3, amended: the user message is appended to the stored history before the completion
  call and the assistant message after the call has answered. When the call answers, the
  stored history is the fetched history followed by both messages, trimmed; when the call
  fails, it is the fetched history followed by the user message alone.
\<close>

theorem turn_persistence:
  assumes "\<not> is_command m" and "truthy (api_key s)"
  shows "(answers (chat_completion e (pending_request u m s)) a \<longrightarrow>
            conversations (snd (process_message e u m s)) =
              (conversations s)(u \<mapsto> trim (history u s @ [user_turn m, assistant_turn a]))) \<and>
         (failure (chat_completion e (pending_request u m s)) = Some d \<longrightarrow>
            conversations (snd (process_message e u m s)) =
              (conversations s)(u \<mapsto> history u s @ [user_turn m]))"
proof (intro conjI impI)
  assume a: "answers (chat_completion e (pending_request u m s)) a"
  show "conversations (snd (process_message e u m s)) =
          (conversations s)(u \<mapsto> trim (history u s @ [user_turn m, assistant_turn a]))"
    using body_answer[OF assms a] by (simp add: process_message_returns)
next
  assume f: "failure (chat_completion e (pending_request u m s)) = Some d"
  show "conversations (snd (process_message e u m s)) =
          (conversations s)(u \<mapsto> history u s @ [user_turn m])"
    using body_failure[OF assms f] by (simp add: process_message_catches put_frame)
qed

text \<open>One answered call and one failed call for user A.\<close>

theorem turn_persistence_witness:
  "\<not> is_command ''Hello'' \<and> truthy (api_key seeded_bot) \<and>
   answers (chat_completion answering_env (pending_request ''A'' ''Hello'' seeded_bot)) ''Hi!'' \<and>
   failure (chat_completion failing_env (pending_request ''A'' ''Hello'' seeded_bot)) =
     Some ''Connection timed out'' \<and>
   conversations (snd (process_message answering_env ''A'' ''Hello'' seeded_bot)) =
     [''A'' \<mapsto> [system_message, user_turn ''Hello'', assistant_turn ''Hi!'']] \<and>
   conversations (snd (process_message failing_env ''A'' ''Hello'' seeded_bot)) =
     [''A'' \<mapsto> [system_message, user_turn ''Hello'']]"
proof -
  have c: "\<not> is_command ''Hello''"
    by (simp add: is_command_def lower_def lower_char_def)
  have k: "truthy (api_key seeded_bot)"
    by (simp add: truthy_def seeded_bot_def keyed_bot_def fresh_bot_def)
  have a: "answers (chat_completion answering_env (pending_request ''A'' ''Hello'' seeded_bot)) ''Hi!''"
    by (simp add: answers_def answering_env_def)
  have f: "failure (chat_completion failing_env (pending_request ''A'' ''Hello'' seeded_bot)) =
             Some ''Connection timed out''"
    by (simp add: failure_def failing_env_def answering_env_def)
  have h: "history ''A'' seeded_bot = [system_message]"
    by (simp add: history_def get_conversation_history_def seeded_bot_def)
  have q: "conversations seeded_bot = [''A'' \<mapsto> [system_message]]"
    by (simp add: seeded_bot_def)
  show ?thesis
    using turn_persistence[OF c k, of answering_env "''A''" "''Hi!''" "''Connection timed out''"]
      turn_persistence[OF c k, of failing_env "''A''" "''Hi!''" "''Connection timed out''"]
      c k a f h q
    by (simp add: trim_def)
qed

subsection \<open>Failure of the completion call\<close>

text \<open>
  C7: when the completion call fails on a message that is not a command (the call raises,
  or its response has no first choice), the exception raised in the body is caught:
  \<open>process_message\<close> returns the non-empty text "Sorry, I encountered an error: "
  followed by the error message, which is "Error: " and the description of the failure,
  and the same error message is put on the queue.
\<close>

theorem gateway_failure_reply:
  assumes "\<not> is_command m" and "truthy (api_key s)"
    and "failure (chat_completion e (pending_request u m s)) = Some d"
  shows "fst (process_message_body e u m s) = Inl d \<and>
         fst (process_message e u m s) = ''Sorry, I encountered an error: '' @ ''Error: '' @ d \<and>
         fst (process_message e u m s) \<noteq> [] \<and>
         last (message_queue (snd (process_message e u m s))) =
           error_line (now e) (''Error: '' @ d)"
  using body_failure(1)[OF assms]
  by (simp add: process_message_catches put_def)

text \<open>A call that times out.\<close>

theorem gateway_failure_reply_witness:
  "\<not> is_command ''Hello'' \<and> truthy (api_key keyed_bot) \<and>
   failure (chat_completion failing_env (pending_request ''A'' ''Hello'' keyed_bot)) =
     Some ''Connection timed out'' \<and>
   fst (process_message_body failing_env ''A'' ''Hello'' keyed_bot) =
     Inl ''Connection timed out'' \<and>
   fst (process_message failing_env ''A'' ''Hello'' keyed_bot) =
     ''Sorry, I encountered an error: Error: Connection timed out''"
proof -
  have c: "\<not> is_command ''Hello''"
    by (simp add: is_command_def lower_def lower_char_def)
  have k: "truthy (api_key keyed_bot)"
    by (simp add: truthy_def keyed_bot_def fresh_bot_def)
  have f: "failure (chat_completion failing_env (pending_request ''A'' ''Hello'' keyed_bot)) =
             Some ''Connection timed out''"
    by (simp add: failure_def failing_env_def answering_env_def)
  show ?thesis
    using gateway_failure_reply[OF c k f] c k f by simp
qed

subsection \<open>Length of the history after successful turns\<close>

text \<open>What the code stores after an answered call is what the specification's store holds.\<close>

lemma trim_spec_append_turn:
  "trim (h @ [user_turn m, assistant_turn a]) = spec_append_turn h (m, a)"
  by (cases h) (simp_all add: trim_def spec_append_turn_def Let_def)

lemma history_stored: "conversations s u = Some h \<Longrightarrow> history u s = h"
  by (simp add: history_def get_conversation_history_def)

lemma successful_turn_stored:
  assumes "successful_turn e u m a s"
  shows "conversations (snd (process_message e u m s)) u =
           Some (spec_append_turn (history u s) (m, a))"
proof -
  from assms have c: "\<not> is_command m" and k: "truthy (api_key s)"
    and r: "answers (chat_completion e (pending_request u m s)) a"
    by (simp_all add: successful_turn_def)
  show ?thesis
    using body_answer[OF c k r]
    by (simp add: process_message_returns trim_spec_append_turn)
qed

lemma run_turns_stored:
  assumes "successful_turns u ts s" and "ts \<noteq> []"
  shows "conversations (run_turns u ts s) u =
           Some (spec_append_turns (history u s) (map snd ts))"
  using assms
proof (induction ts arbitrary: s)
  case Nil
  then show ?case by simp
next
  case (Cons t ts)
  obtain e m a where t: "t = (e, m, a)" by (cases t)
  let ?s = "snd (process_message e u m s)"
  from Cons.prems t have ok: "successful_turn e u m a s" and rest: "successful_turns u ts ?s"
    by simp_all
  have st: "conversations ?s u = Some (spec_append_turn (history u s) (m, a))"
    by (rule successful_turn_stored[OF ok])
  show ?case
  proof (cases ts)
    case Nil
    with st t show ?thesis by (simp add: spec_append_turns_def)
  next
    case (Cons t' ts')
    then have "ts \<noteq> []" by simp
    from Cons.IH[OF rest this] history_stored[OF st] t
    show ?thesis by (simp add: spec_append_turns_def)
  qed
qed

lemma length_spec_append_turn:
  "length (spec_append_turn h t) = min (length h + 2) 20"
  by (simp add: spec_append_turn_def Let_def)

lemma length_spec_append_turns:
  "length h \<le> 20 \<Longrightarrow>
   length (spec_append_turns h ts) = min (length h + 2 * length ts) 20"
proof (induction ts arbitrary: h)
  case Nil
  then show ?case by (simp add: spec_append_turns_def)
next
  case (Cons t ts)
  have "length (spec_append_turn h t) \<le> 20"
    by (simp add: length_spec_append_turn)
  from Cons.IH[OF this] show ?case
    by (simp add: spec_append_turns_def length_spec_append_turn)
qed

lemma head_spec_append_turn:
  "h \<noteq> [] \<Longrightarrow> spec_append_turn h t \<noteq> [] \<and> spec_append_turn h t ! 0 = h ! 0"
  by (cases h) (simp_all add: spec_append_turn_def Let_def)

lemma head_spec_append_turns:
  "h \<noteq> [] \<Longrightarrow> spec_append_turns h ts ! 0 = h ! 0"
proof (induction ts arbitrary: h)
  case Nil
  then show ?case by (simp add: spec_append_turns_def)
next
  case (Cons t ts)
  from head_spec_append_turn[OF Cons.prems, of t]
  have n: "spec_append_turn h t \<noteq> []" and z: "spec_append_turn h t ! 0 = h ! 0"
    by simp_all
  from Cons.IH[OF n] z show ?case
    by (simp add: spec_append_turns_def)
qed

lemma successful_turns_always:
  assumes "\<forall>t \<in> set ts. \<not> is_command (fst (snd t)) \<and> (\<forall>r. answers (chat_completion (fst t) r) (snd (snd t)))"
    and "truthy (api_key s)"
  shows "successful_turns u ts s"
  using assms
proof (induction ts arbitrary: s)
  case Nil
  then show ?case by simp
next
  case (Cons t ts)
  obtain e m a where t: "t = (e, m, a)" by (cases t)
  from Cons.prems(2) have "truthy (api_key (snd (process_message e u m s)))"
    by (simp add: process_message_api_key)
  with Cons t show ?case by (simp add: successful_turn_def)
qed

text \<open>
  C2: a user whose history is the system message alone (first contact, or just cleared)
  sends N messages, N at least 1, none a command, each answered by the completion
  service. The stored history is then the one the specification describes, with both
  messages of a turn appended and the trim applied after every turn (element 0 and the
  last 19 kept when the length exceeds 20); its length is min (1 + 2N) 20 and its element
  0 has the role system. The statement holds for every such run, so for every prefix of
  a run as well.
\<close>

theorem history_after_successful_turns:
  assumes "history u s = [system_message]"
    and "successful_turns u ts s" and "ts \<noteq> []"
  shows "conversations (run_turns u ts s) u =
           Some (spec_append_turns [system_message] (map snd ts)) \<and>
         length (spec_append_turns [system_message] (map snd ts)) =
           min (1 + 2 * length ts) 20 \<and>
         role (spec_append_turns [system_message] (map snd ts) ! 0) = ''system''"
  using run_turns_stored[OF assms(2,3)] assms(1)
    length_spec_append_turns[of "[system_message]" "map snd ts"]
    head_spec_append_turns[of "[system_message]" "map snd ts"]
  by (simp add: system_message_def)

text \<open>Ten answered messages of user A: the first user message has been trimmed away.\<close>

theorem history_after_successful_turns_witness:
  "history ''A'' keyed_bot = [system_message] \<and>
   successful_turns ''A'' ten_turns keyed_bot \<and> ten_turns \<noteq> [] \<and>
   length ten_turns = 10 \<and>
   conversations (run_turns ''A'' ten_turns keyed_bot) ''A'' =
     Some (spec_append_turns [system_message] (map snd ten_turns)) \<and>
   length (spec_append_turns [system_message] (map snd ten_turns)) = 20 \<and>
   role (spec_append_turns [system_message] (map snd ten_turns) ! 0) = ''system'' \<and>
   spec_append_turns [system_message] (map snd ten_turns) =
     [system_message, assistant_turn ''Hi!'',
      user_turn ''m2'', assistant_turn ''Hi!'', user_turn ''m3'', assistant_turn ''Hi!'',
      user_turn ''m4'', assistant_turn ''Hi!'', user_turn ''m5'', assistant_turn ''Hi!'',
      user_turn ''m6'', assistant_turn ''Hi!'', user_turn ''m7'', assistant_turn ''Hi!'',
      user_turn ''m8'', assistant_turn ''Hi!'', user_turn ''m9'', assistant_turn ''Hi!'',
      user_turn ''m10'', assistant_turn ''Hi!'']"
proof -
  have h: "history ''A'' keyed_bot = [system_message]"
    by (simp add: history_def get_conversation_history_def keyed_bot_def fresh_bot_def)
  have k: "truthy (api_key keyed_bot)"
    by (simp add: truthy_def keyed_bot_def fresh_bot_def)
  have ok: "successful_turns ''A'' ten_turns keyed_bot"
    by (rule successful_turns_always[OF _ k])
       (simp add: ten_turns_def is_command_def lower_def lower_char_def answers_def
          answering_env_def)
  have n: "ten_turns \<noteq> []" and l: "length ten_turns = 10"
    by (simp_all add: ten_turns_def)
  have v: "spec_append_turns [system_message] (map snd ten_turns) =
     [system_message, assistant_turn ''Hi!'',
      user_turn ''m2'', assistant_turn ''Hi!'', user_turn ''m3'', assistant_turn ''Hi!'',
      user_turn ''m4'', assistant_turn ''Hi!'', user_turn ''m5'', assistant_turn ''Hi!'',
      user_turn ''m6'', assistant_turn ''Hi!'', user_turn ''m7'', assistant_turn ''Hi!'',
      user_turn ''m8'', assistant_turn ''Hi!'', user_turn ''m9'', assistant_turn ''Hi!'',
      user_turn ''m10'', assistant_turn ''Hi!'']"
    by (simp add: spec_append_turns_def spec_append_turn_def ten_turns_def Let_def)
  show ?thesis
    using history_after_successful_turns[OF h ok n] h ok n l v by simp
qed

subsection \<open>Commands\<close>

text \<open>A completion call either fails or answers.\<close>

lemma failure_or_answer:
  "(\<exists>d. failure r = Some d) \<or> (\<exists>a. answers r a)"
  by (simp add: failure_def answers_def split: completion.splits list.splits)

lemma process_message_calls:
  assumes "\<not> is_command m" and "truthy (api_key s)"
  shows "completion_calls (snd (process_message e u m s)) =
           completion_calls s @ [pending_request u m s]"
proof -
  from failure_or_answer[of "chat_completion e (pending_request u m s)"]
  show ?thesis
  proof (elim disjE exE)
    fix d assume "failure (chat_completion e (pending_request u m s)) = Some d"
    from body_failure[OF assms this] show ?thesis
      by (simp add: process_message_catches put_frame)
  next
    fix a assume "answers (chat_completion e (pending_request u m s)) a"
    from body_answer[OF assms this] show ?thesis
      by (simp add: process_message_returns)
  qed
qed

lemma process_message_command_calls:
  assumes "is_command m"
  shows "completion_calls (snd (process_message e u m s)) = completion_calls s"
proof -
  from assms consider "lower m = ''!clear''" | "lower m = ''!help''" | "lower m = ''!info''"
    by (auto simp add: is_command_def)
  then show ?thesis
  proof cases
    case 1
    then show ?thesis
      by (simp add: process_message_def process_message_body_def Let_def
        split_beta put_def clear_conversation_def get_user_name_frame split: option.splits)
  next
    case 2
    then show ?thesis
      by (simp add: process_message_def process_message_body_def Let_def split_beta put_def
           get_user_name_frame)
  next
    case 3
    then show ?thesis
      by (simp add: process_message_def process_message_body_def Let_def split_beta put_def
           get_user_name_frame)
  qed
qed

text \<open>The definitions \<open>strip\<close> is evaluated with on a concrete text.\<close>

lemmas strip_eval = strip_def drop_leading.simps leading_def whitespace_def

lemma strip_commands:
  "strip ''!clear'' = ''!clear''" "strip ''!help'' = ''!help''" "strip ''!info'' = ''!info''"
  by (simp_all add: strip_eval)

lemma lower_commands:
  "lower ''!clear'' = ''!clear''" "lower ''!help'' = ''!help''" "lower ''!info'' = ''!info''"
  by (simp_all add: lower_def lower_char_def)

text \<open>What \<open>process_message\<close> returns and leaves behind for a command.\<close>

lemma command_result:
  assumes "c = ''!clear'' \<or> c = ''!help'' \<or> c = ''!info''" and "lower m = c"
  shows "fst (process_message e u m s) =
           (if c = ''!clear''
            then (if conversations s u = None then ''No conversation history found.''
                  else ''Conversation history cleared. What would you like to talk about?'')
            else if c = ''!help'' then help_text
            else info_text (config s))"
    and "snd (process_message e u m s) =
           (if c = ''!clear''
            then snd (clear_conversation u (snd (get_user_name e u s)))
            else snd (get_user_name e u s))
           \<lparr>message_queue := message_queue s @
              [received_line (now e) (fst (get_user_name e u s)) m,
               sent_line (now e) (fst (get_user_name e u s)) (fst (process_message e u m s))]\<rparr>"
proof -
  from assms(1) consider "c = ''!clear''" | "c = ''!help''" | "c = ''!info''"
    by blast
  then have "fst (process_message e u m s) =
           (if c = ''!clear''
            then (if conversations s u = None then ''No conversation history found.''
                  else ''Conversation history cleared. What would you like to talk about?'')
            else if c = ''!help'' then help_text
            else info_text (config s)) \<and>
    snd (process_message e u m s) =
           (if c = ''!clear''
            then snd (clear_conversation u (snd (get_user_name e u s)))
            else snd (get_user_name e u s))
           \<lparr>message_queue := message_queue s @
              [received_line (now e) (fst (get_user_name e u s)) m,
               sent_line (now e) (fst (get_user_name e u s)) (fst (process_message e u m s))]\<rparr>"
  proof cases
    case 1
    with assms(2) have "lower m = ''!clear''" by simp
    with 1 show ?thesis
      by (simp add: process_message_def process_message_body_def Let_def
        split_beta put_def clear_conversation_def get_user_name_frame split: option.splits)
  next
    case 2
    with assms(2) have "lower m = ''!help''" by simp
    with 2 show ?thesis
      by (simp add: process_message_def process_message_body_def Let_def split_beta put_def
           get_user_name_frame)
  next
    case 3
    with assms(2) have "lower m = ''!info''" by simp
    with 3 show ?thesis
      by (simp add: process_message_def process_message_body_def Let_def split_beta put_def
           get_user_name_frame)
  qed
  then show "fst (process_message e u m s) =
           (if c = ''!clear''
            then (if conversations s u = None then ''No conversation history found.''
                  else ''Conversation history cleared. What would you like to talk about?'')
            else if c = ''!help'' then help_text
            else info_text (config s))"
    and "snd (process_message e u m s) =
           (if c = ''!clear''
            then snd (clear_conversation u (snd (get_user_name e u s)))
            else snd (get_user_name e u s))
           \<lparr>message_queue := message_queue s @
              [received_line (now e) (fst (get_user_name e u s)) m,
               sent_line (now e) (fst (get_user_name e u s)) (fst (process_message e u m s))]\<rparr>"
    by simp_all
qed

text \<open>
  C4, as stated, fails: for user A, who has a history, the inbound texts " !CLEAR " and
  "!clear" get the same reply, but the states they leave are not the same: the line put on
  the queue on receipt quotes "!CLEAR" for the one and "!clear" for the other.
\<close>

theorem trimmed_command_queue_counterexample:
  "lower (strip '' !CLEAR '') = ''!clear'' \<and>
   fst (whatsapp_webhook answering_env ''A'' '' !CLEAR '' seeded_bot) =
     fst (whatsapp_webhook answering_env ''A'' ''!clear'' seeded_bot) \<and>
   message_queue (snd (whatsapp_webhook answering_env ''A'' '' !CLEAR '' seeded_bot)) =
     [''[2024-01-01 12:00:00] Received from A: !CLEAR'',
      ''[2024-01-01 12:00:00] Sent to A: Conversation history cleared. What would you like to talk about?''] \<and>
   message_queue (snd (whatsapp_webhook answering_env ''A'' ''!clear'' seeded_bot)) =
     [''[2024-01-01 12:00:00] Received from A: !clear'',
      ''[2024-01-01 12:00:00] Sent to A: Conversation history cleared. What would you like to talk about?''] \<and>
   snd (whatsapp_webhook answering_env ''A'' '' !CLEAR '' seeded_bot) \<noteq>
     snd (whatsapp_webhook answering_env ''A'' ''!clear'' seeded_bot)"
proof -
  have l: "lower (strip '' !CLEAR '') = ''!clear''"
    by (simp add: lower_def lower_char_def strip_eval)
  have r: "fst (whatsapp_webhook answering_env ''A'' '' !CLEAR '' seeded_bot) =
     fst (whatsapp_webhook answering_env ''A'' ''!clear'' seeded_bot)"
    by (simp add: whatsapp_webhook_def strip_eval eval_defs)
  have a: "message_queue (snd (whatsapp_webhook answering_env ''A'' '' !CLEAR '' seeded_bot)) =
     [''[2024-01-01 12:00:00] Received from A: !CLEAR'',
      ''[2024-01-01 12:00:00] Sent to A: Conversation history cleared. What would you like to talk about?'']"
    by (simp add: whatsapp_webhook_def strip_eval eval_defs received_line_def sent_line_def)
  have b: "message_queue (snd (whatsapp_webhook answering_env ''A'' ''!clear'' seeded_bot)) =
     [''[2024-01-01 12:00:00] Received from A: !clear'',
      ''[2024-01-01 12:00:00] Sent to A: Conversation history cleared. What would you like to talk about?'']"
    by (simp add: whatsapp_webhook_def strip_eval eval_defs received_line_def sent_line_def)
  have d: "snd (whatsapp_webhook answering_env ''A'' '' !CLEAR '' seeded_bot) \<noteq>
     snd (whatsapp_webhook answering_env ''A'' ''!clear'' seeded_bot)"
  proof
    assume "snd (whatsapp_webhook answering_env ''A'' '' !CLEAR '' seeded_bot) =
     snd (whatsapp_webhook answering_env ''A'' ''!clear'' seeded_bot)"
    then have "message_queue (snd (whatsapp_webhook answering_env ''A'' '' !CLEAR '' seeded_bot)) =
     message_queue (snd (whatsapp_webhook answering_env ''A'' ''!clear'' seeded_bot))"
      by simp
    with a b show False by simp
  qed
  from l r a b d show ?thesis by simp
qed

text \<open>
  C4, amended: the webhook trims the inbound text and \<open>process_message\<close> compares its
  lower-case form with the literals. For an inbound text that equals a command literal
  once trimmed and lower-cased, the command is carried out: the reply is the reply of that
  command, and the state left is the state after the name lookup, with the history reset
  by "!clear", and with two lines added to the queue, the text as received (trimmed, in
  the case it was typed) and the reply as sent. The literal itself gets the same reply and
  leaves the same state except for the text quoted in the line on receipt. No request is
  sent to the completion service.
\<close>

theorem command_literals_trimmed_case_insensitive:
  assumes "c = ''!clear'' \<or> c = ''!help'' \<or> c = ''!info''"
    and "lower (strip raw) = c"
  shows "fst (whatsapp_webhook e u raw s) =
           (if c = ''!clear''
            then (if conversations s u = None then ''No conversation history found.''
                  else ''Conversation history cleared. What would you like to talk about?'')
            else if c = ''!help'' then help_text
            else info_text (config s)) \<and>
         snd (whatsapp_webhook e u raw s) =
           (if c = ''!clear''
            then snd (clear_conversation u (snd (get_user_name e u s)))
            else snd (get_user_name e u s))
           \<lparr>message_queue := message_queue s @
              [received_line (now e) (fst (get_user_name e u s)) (strip raw),
               sent_line (now e) (fst (get_user_name e u s)) (fst (whatsapp_webhook e u raw s))]\<rparr> \<and>
         fst (whatsapp_webhook e u c s) = fst (whatsapp_webhook e u raw s) \<and>
         snd (whatsapp_webhook e u c s) =
           (snd (whatsapp_webhook e u raw s))
           \<lparr>message_queue := message_queue s @
              [received_line (now e) (fst (get_user_name e u s)) c,
               sent_line (now e) (fst (get_user_name e u s)) (fst (whatsapp_webhook e u raw s))]\<rparr> \<and>
         conversations (snd (whatsapp_webhook e u raw s)) =
           (if c = ''!clear'' \<and> conversations s u \<noteq> None
            then (conversations s)(u \<mapsto> [system_message])
            else conversations s) \<and>
         completion_calls (snd (whatsapp_webhook e u raw s)) = completion_calls s"
proof -
  from assms(1) have sc: "strip c = c" and lc: "lower c = c"
    by (auto simp add: strip_commands lower_commands)
  note raw = command_result[OF assms(1) assms(2), of e u s]
  note lit = command_result[OF assms(1) lc, of e u s]
  have 1: "fst (whatsapp_webhook e u raw s) =
           (if c = ''!clear''
            then (if conversations s u = None then ''No conversation history found.''
                  else ''Conversation history cleared. What would you like to talk about?'')
            else if c = ''!help'' then help_text
            else info_text (config s))"
    using raw(1) by (simp add: whatsapp_webhook_def)
  have 2: "snd (whatsapp_webhook e u raw s) =
           (if c = ''!clear''
            then snd (clear_conversation u (snd (get_user_name e u s)))
            else snd (get_user_name e u s))
           \<lparr>message_queue := message_queue s @
              [received_line (now e) (fst (get_user_name e u s)) (strip raw),
               sent_line (now e) (fst (get_user_name e u s)) (fst (whatsapp_webhook e u raw s))]\<rparr>"
    using raw(2) by (simp add: whatsapp_webhook_def)
  have 3: "fst (whatsapp_webhook e u c s) = fst (whatsapp_webhook e u raw s)"
    using raw(1) lit(1) sc by (simp add: whatsapp_webhook_def)
  have 4: "snd (whatsapp_webhook e u c s) =
           (snd (whatsapp_webhook e u raw s))
           \<lparr>message_queue := message_queue s @
              [received_line (now e) (fst (get_user_name e u s)) c,
               sent_line (now e) (fst (get_user_name e u s)) (fst (whatsapp_webhook e u raw s))]\<rparr>"
  proof -
    have "snd (whatsapp_webhook e u c s) =
           (if c = ''!clear''
            then snd (clear_conversation u (snd (get_user_name e u s)))
            else snd (get_user_name e u s))
           \<lparr>message_queue := message_queue s @
              [received_line (now e) (fst (get_user_name e u s)) c,
               sent_line (now e) (fst (get_user_name e u s)) (fst (whatsapp_webhook e u raw s))]\<rparr>"
      using lit(2) sc 3 by (simp add: whatsapp_webhook_def)
    then show ?thesis by (simp add: 2)
  qed
  have 5: "conversations (snd (whatsapp_webhook e u raw s)) =
           (if c = ''!clear'' \<and> conversations s u \<noteq> None
            then (conversations s)(u \<mapsto> [system_message])
            else conversations s)"
    by (simp add: 2 clear_conversation_def get_user_name_frame split: option.splits)
  have 6: "completion_calls (snd (whatsapp_webhook e u raw s)) = completion_calls s"
    by (simp add: 2 clear_conversation_def get_user_name_frame split: option.splits)
  from 1 2 3 4 5 6 show ?thesis by blast
qed

text \<open>The inbound text " !CLEAR " against "!clear", for a user with a history.\<close>

theorem command_literals_trimmed_case_insensitive_witness:
  "(''!clear'' = ''!clear'' \<or> ''!clear'' = ''!help'' \<or> ''!clear'' = ''!info'') \<and>
   lower (strip '' !CLEAR '') = ''!clear'' \<and>
   fst (whatsapp_webhook answering_env ''A'' '' !CLEAR '' seeded_bot) =
     ''Conversation history cleared. What would you like to talk about?'' \<and>
   fst (whatsapp_webhook answering_env ''A'' ''!clear'' seeded_bot) =
     ''Conversation history cleared. What would you like to talk about?'' \<and>
   conversations (snd (whatsapp_webhook answering_env ''A'' '' !CLEAR '' seeded_bot)) =
     [''A'' \<mapsto> [system_message]] \<and>
   completion_calls (snd (whatsapp_webhook answering_env ''A'' '' !CLEAR '' seeded_bot)) = []"
proof -
  have c: "''!clear'' = ''!clear'' \<or> ''!clear'' = ''!help'' \<or> ''!clear'' = ''!info''"
    by simp
  have l: "lower (strip '' !CLEAR '') = ''!clear''"
    by (simp add: lower_def lower_char_def strip_eval)
  have h: "conversations seeded_bot = [''A'' \<mapsto> [system_message]]"
    and q: "completion_calls seeded_bot = []"
    by (simp_all add: seeded_bot_def keyed_bot_def fresh_bot_def)
  note w = command_literals_trimmed_case_insensitive[OF c l, of answering_env "''A''" seeded_bot]
  from w have 1: "fst (whatsapp_webhook answering_env ''A'' '' !CLEAR '' seeded_bot) =
     ''Conversation history cleared. What would you like to talk about?''"
    by (simp add: h)
  from w have 2: "fst (whatsapp_webhook answering_env ''A'' ''!clear'' seeded_bot) =
     fst (whatsapp_webhook answering_env ''A'' '' !CLEAR '' seeded_bot)"
    by blast
  from w have 3: "conversations (snd (whatsapp_webhook answering_env ''A'' '' !CLEAR '' seeded_bot)) =
     (if ''!clear'' = ''!clear'' \<and> conversations seeded_bot ''A'' \<noteq> None
      then (conversations seeded_bot)(''A'' \<mapsto> [system_message])
      else conversations seeded_bot)"
    by blast
  from w have 4: "completion_calls (snd (whatsapp_webhook answering_env ''A'' '' !CLEAR '' seeded_bot)) =
     completion_calls seeded_bot"
    by blast
  from c l 1 2 3 4 show ?thesis by (simp add: h q)
qed

text \<open>
  C5: an inbound text that is one of the three literals once trimmed and lower-cased sends
  no request to the completion service and gets the reply of that command. Every other
  inbound text, a literal with more text around it included, is not taken for a command:
  with a credential set, exactly one request is sent, carrying the history and the trimmed
  text as the new user message.
\<close>

theorem command_precedence:
  "(lower (strip raw) \<in> {''!clear'', ''!help'', ''!info''} \<longrightarrow>
      completion_calls (snd (whatsapp_webhook e u raw s)) = completion_calls s \<and>
      fst (whatsapp_webhook e u raw s) =
        (if lower (strip raw) = ''!clear''
         then (if conversations s u = None then ''No conversation history found.''
               else ''Conversation history cleared. What would you like to talk about?'')
         else if lower (strip raw) = ''!help'' then help_text
         else info_text (config s))) \<and>
   (lower (strip raw) \<notin> {''!clear'', ''!help'', ''!info''} \<and> truthy (api_key s) \<longrightarrow>
      completion_calls (snd (whatsapp_webhook e u raw s)) =
        completion_calls s @ [pending_request u (strip raw) s])"
proof (intro conjI impI)
  assume "lower (strip raw) \<in> {''!clear'', ''!help'', ''!info''}"
  then have c: "lower (strip raw) = ''!clear'' \<or> lower (strip raw) = ''!help'' \<or>
                lower (strip raw) = ''!info''"
    by simp
  then have "is_command (strip raw)" by (simp add: is_command_def)
  then show "completion_calls (snd (whatsapp_webhook e u raw s)) = completion_calls s"
    by (simp add: whatsapp_webhook_def process_message_command_calls)
  from command_result(1)[OF c refl, of e u s]
  show "fst (whatsapp_webhook e u raw s) =
        (if lower (strip raw) = ''!clear''
         then (if conversations s u = None then ''No conversation history found.''
               else ''Conversation history cleared. What would you like to talk about?'')
         else if lower (strip raw) = ''!help'' then help_text
         else info_text (config s))"
    by (simp add: whatsapp_webhook_def)
next
  assume a: "lower (strip raw) \<notin> {''!clear'', ''!help'', ''!info''} \<and> truthy (api_key s)"
  then have "\<not> is_command (strip raw)" by (auto simp add: is_command_def)
  with a show "completion_calls (snd (whatsapp_webhook e u raw s)) =
        completion_calls s @ [pending_request u (strip raw) s]"
    by (simp add: whatsapp_webhook_def process_message_calls)
qed

text \<open>
  "!HeLp" between a no-break space, blanks and an em space is a command; "!clear it" is a
  chat message.
\<close>

theorem command_precedence_witness:
  "lower (strip ([CHR 0xC2, CHR 0xA0] @ '' !HeLp '' @ [CHR 0xE2, CHR 0x80, CHR 0x83])) \<in>
     {''!clear'', ''!help'', ''!info''} \<and>
   completion_calls
     (snd (whatsapp_webhook answering_env ''A''
        ([CHR 0xC2, CHR 0xA0] @ '' !HeLp '' @ [CHR 0xE2, CHR 0x80, CHR 0x83]) keyed_bot)) = [] \<and>
   fst (whatsapp_webhook answering_env ''A''
        ([CHR 0xC2, CHR 0xA0] @ '' !HeLp '' @ [CHR 0xE2, CHR 0x80, CHR 0x83]) keyed_bot) =
     help_text \<and>
   lower (strip ''!clear it'') \<notin> {''!clear'', ''!help'', ''!info''} \<and>
   truthy (api_key keyed_bot) \<and>
   completion_calls (snd (whatsapp_webhook answering_env ''A'' ''!clear it'' keyed_bot)) =
     [pending_request ''A'' ''!clear it'' keyed_bot]"
proof -
  let ?raw = "[CHR 0xC2, CHR 0xA0] @ '' !HeLp '' @ [CHR 0xE2, CHR 0x80, CHR 0x83]"
  have v: "lower (strip ?raw) = ''!help''"
    by (simp add: lower_def lower_char_def strip_eval)
  then have a: "lower (strip ?raw) \<in> {''!clear'', ''!help'', ''!info''}"
    by simp
  have b: "lower (strip ''!clear it'') \<notin> {''!clear'', ''!help'', ''!info''}"
    by (simp add: lower_def lower_char_def strip_eval)
  have s: "strip ''!clear it'' = ''!clear it''"
    by (simp add: strip_eval)
  have k: "truthy (api_key keyed_bot)"
    by (simp add: truthy_def keyed_bot_def fresh_bot_def)
  have q: "completion_calls keyed_bot = []"
    by (simp add: keyed_bot_def fresh_bot_def)
  from command_precedence[of ?raw answering_env "''A''" keyed_bot] a
  have "completion_calls (snd (whatsapp_webhook answering_env ''A'' ?raw keyed_bot)) =
          completion_calls keyed_bot \<and>
        fst (whatsapp_webhook answering_env ''A'' ?raw keyed_bot) =
          (if lower (strip ?raw) = ''!clear''
           then (if conversations keyed_bot ''A'' = None then ''No conversation history found.''
                 else ''Conversation history cleared. What would you like to talk about?'')
           else if lower (strip ?raw) = ''!help'' then help_text
           else info_text (config keyed_bot))"
    by blast
  then have p: "completion_calls (snd (whatsapp_webhook answering_env ''A'' ?raw keyed_bot)) = []"
    and p': "fst (whatsapp_webhook answering_env ''A'' ?raw keyed_bot) = help_text"
    by (simp_all only: v q) simp_all
  have r: "completion_calls (snd (whatsapp_webhook answering_env ''A'' ''!clear it'' keyed_bot)) =
             completion_calls keyed_bot @ [pending_request ''A'' (strip ''!clear it'') keyed_bot]"
    using command_precedence[of "''!clear it''" answering_env "''A''" keyed_bot] b k by blast
  from a p p' b k r show ?thesis by (simp only: s q) simp
qed

subsection \<open>Clearing a history\<close>

lemma clear_then_get:
  "fst (get_conversation_history u (snd (clear_conversation u s))) = [system_message]"
  by (simp add: get_conversation_history_def clear_conversation_def split: option.splits)

lemma process_message_clear:
  assumes "lower m = ''!clear''"
  shows "fst (process_message e u m s) = fst (clear_conversation u s)"
    and "conversations (snd (process_message e u m s)) = conversations (snd (clear_conversation u s))"
  using assms
  by (simp_all add: process_message_def process_message_body_def Let_def split_beta put_def
        clear_conversation_def get_user_name_frame split: option.splits)

text \<open>
  C6: for every user, the history fetched after \<open>clear_conversation\<close> has length 1 and its
  only entry has the role system. The command "!clear", in any case, replies
  "Conversation history cleared. What would you like to talk about?" exactly when the user
  had a history, which is then the system message alone, and "No conversation history
  found." when the user had none, and then the store is left as it was.
\<close>

theorem clear_resets_history:
  "length (fst (get_conversation_history u (snd (clear_conversation u s)))) = 1 \<and>
   role (fst (get_conversation_history u (snd (clear_conversation u s))) ! 0) = ''system'' \<and>
   (lower m = ''!clear'' \<longrightarrow>
      fst (process_message e u m s) =
        (if conversations s u = None then ''No conversation history found.''
         else ''Conversation history cleared. What would you like to talk about?'') \<and>
      conversations (snd (process_message e u m s)) =
        (if conversations s u = None then conversations s
         else (conversations s)(u \<mapsto> [system_message])))"
proof (intro conjI impI)
  have g: "fst (get_conversation_history u (snd (clear_conversation u s))) = [system_message]"
    by (rule clear_then_get)
  show "length (fst (get_conversation_history u (snd (clear_conversation u s)))) = 1"
    by (simp add: g)
  show "role (fst (get_conversation_history u (snd (clear_conversation u s))) ! 0) = ''system''"
    by (simp add: g system_message_def)
next
  assume l: "lower m = ''!clear''"
  show "fst (process_message e u m s) =
        (if conversations s u = None then ''No conversation history found.''
         else ''Conversation history cleared. What would you like to talk about?'')"
    by (simp add: process_message_clear(1)[OF l] clear_conversation_def split: option.splits)
  show "conversations (snd (process_message e u m s)) =
        (if conversations s u = None then conversations s
         else (conversations s)(u \<mapsto> [system_message]))"
    by (simp add: process_message_clear(2)[OF l] clear_conversation_def split: option.splits)
qed

text \<open>"!Clear" from a user with a history, and from one without.\<close>

theorem clear_resets_history_witness:
  "lower ''!Clear'' = ''!clear'' \<and>
   fst (process_message answering_env ''A'' ''!Clear'' seeded_bot) =
     ''Conversation history cleared. What would you like to talk about?'' \<and>
   conversations (snd (process_message answering_env ''A'' ''!Clear'' seeded_bot)) ''A'' =
     Some [system_message] \<and>
   fst (process_message answering_env ''A'' ''!Clear'' fresh_bot) =
     ''No conversation history found.'' \<and>
   conversations (snd (process_message answering_env ''A'' ''!Clear'' fresh_bot)) ''A'' = None"
proof -
  have l: "lower ''!Clear'' = ''!clear''"
    by (simp add: lower_def lower_char_def)
  have a: "conversations seeded_bot ''A'' \<noteq> None" "conversations fresh_bot ''A'' = None"
    by (simp_all add: seeded_bot_def fresh_bot_def)
  from clear_resets_history[of "''A''" seeded_bot "''!Clear''" answering_env] l a(1)
  have p: "fst (process_message answering_env ''A'' ''!Clear'' seeded_bot) =
     ''Conversation history cleared. What would you like to talk about?''"
    "conversations (snd (process_message answering_env ''A'' ''!Clear'' seeded_bot)) =
       (conversations seeded_bot)(''A'' \<mapsto> [system_message])"
    by simp_all
  from clear_resets_history[of "''A''" fresh_bot "''!Clear''" answering_env] l a(2)
  have q: "fst (process_message answering_env ''A'' ''!Clear'' fresh_bot) =
     ''No conversation history found.''"
    "conversations (snd (process_message answering_env ''A'' ''!Clear'' fresh_bot)) =
       conversations fresh_bot"
    by simp_all
  show ?thesis using l p q a by simp
qed

subsection \<open>Commands and the creation of a history\<close>

lemma process_message_command:
  assumes "conversations s u = None" and "is_command m"
  shows "conversations (snd (process_message e u m s)) = conversations s"
    and "fst (process_message e u m s) =
           (if lower m = ''!clear'' then ''No conversation history found.''
            else if lower m = ''!help'' then help_text
            else info_text (config s))"
proof -
  from assms(2) consider "lower m = ''!clear''" | "lower m = ''!help''" | "lower m = ''!info''"
    by (auto simp add: is_command_def)
  then have "conversations (snd (process_message e u m s)) = conversations s \<and>
    fst (process_message e u m s) =
           (if lower m = ''!clear'' then ''No conversation history found.''
            else if lower m = ''!help'' then help_text
            else info_text (config s))"
  proof cases
    case 1
    with assms(1) show ?thesis
      by (simp add: process_message_def process_message_body_def Let_def
        split_beta put_def clear_conversation_def get_user_name_frame)
  next
    case 2
    then show ?thesis
      by (simp add: process_message_def process_message_body_def Let_def split_beta put_def
           get_user_name_frame)
  next
    case 3
    then show ?thesis
      by (simp add: process_message_def process_message_body_def Let_def split_beta put_def
           get_user_name_frame)
  qed
  then show "conversations (snd (process_message e u m s)) = conversations s"
    and "fst (process_message e u m s) =
           (if lower m = ''!clear'' then ''No conversation history found.''
            else if lower m = ''!help'' then help_text
            else info_text (config s))"
    by simp_all
qed

lemma process_message_chat_creates:
  assumes "\<not> is_command m"
  shows "conversations (snd (process_message e u m s)) u \<noteq> None"
proof (cases "truthy (api_key s)")
  case False
  from body_no_key[OF assms False, of e u] show ?thesis
    by (simp add: process_message_returns)
next
  case True
  from failure_or_answer[of "chat_completion e (pending_request u m s)"]
  show ?thesis
  proof (elim disjE exE)
    fix d assume "failure (chat_completion e (pending_request u m s)) = Some d"
    from body_failure[OF assms True this] show ?thesis
      by (simp add: process_message_catches put_frame)
  next
    fix a assume "answers (chat_completion e (pending_request u m s)) a"
    from body_answer[OF assms True this] show ?thesis
      by (simp add: process_message_returns)
  qed
qed

text \<open>
  C10: for a user without a history, a message whose lower-case form is one of the three
  literals gets the reply of that command, sends no request, and leaves the store as it
  was, so still without an entry for the user. Any other message takes the history-fetch
  step, after which the user has an entry.
\<close>

theorem commands_create_no_history:
  assumes "conversations s u = None"
  shows "(lower m \<in> {''!clear'', ''!help'', ''!info''} \<longrightarrow>
            conversations (snd (process_message e u m s)) u = None \<and>
            conversations (snd (process_message e u m s)) = conversations s \<and>
            completion_calls (snd (process_message e u m s)) = completion_calls s \<and>
            fst (process_message e u m s) =
              (if lower m = ''!clear'' then ''No conversation history found.''
               else if lower m = ''!help'' then help_text
               else info_text (config s))) \<and>
         (lower m \<notin> {''!clear'', ''!help'', ''!info''} \<longrightarrow>
            conversations (snd (process_message e u m s)) u \<noteq> None)"
proof (intro conjI impI)
  assume "lower m \<in> {''!clear'', ''!help'', ''!info''}"
  then have c: "is_command m" by (auto simp add: is_command_def)
  from process_message_command[OF assms c, of e] assms
  show "conversations (snd (process_message e u m s)) u = None"
    and "conversations (snd (process_message e u m s)) = conversations s"
    and "fst (process_message e u m s) =
              (if lower m = ''!clear'' then ''No conversation history found.''
               else if lower m = ''!help'' then help_text
               else info_text (config s))"
    by simp_all
  from c show "completion_calls (snd (process_message e u m s)) = completion_calls s"
    by (rule process_message_command_calls)
next
  assume "lower m \<notin> {''!clear'', ''!help'', ''!info''}"
  then have "\<not> is_command m" by (auto simp add: is_command_def)
  then show "conversations (snd (process_message e u m s)) u \<noteq> None"
    by (rule process_message_chat_creates)
qed

text \<open>"!INFO" and then "Hello" from a user without a history.\<close>

theorem commands_create_no_history_witness:
  "conversations fresh_bot ''A'' = None \<and>
   lower ''!INFO'' \<in> {''!clear'', ''!help'', ''!info''} \<and>
   conversations (snd (process_message answering_env ''A'' ''!INFO'' fresh_bot)) ''A'' = None \<and>
   fst (process_message answering_env ''A'' ''!INFO'' fresh_bot) =
     ''Bot Configuration:'' @ [CHR 0x0A] @ ''- Model: gpt-x'' @ [CHR 0x0A] @
     ''- Temperature: 0.5'' @ [CHR 0x0A] @ ''- Max tokens: 200'' \<and>
   lower ''Hello'' \<notin> {''!clear'', ''!help'', ''!info''} \<and>
   conversations (snd (process_message answering_env ''A'' ''Hello'' fresh_bot)) ''A'' \<noteq> None"
proof -
  have n: "conversations fresh_bot ''A'' = None"
    by (simp add: fresh_bot_def)
  have a: "lower ''!INFO'' \<in> {''!clear'', ''!help'', ''!info''}" "lower ''!INFO'' = ''!info''"
    by (simp_all add: lower_def lower_char_def)
  have b: "lower ''Hello'' \<notin> {''!clear'', ''!help'', ''!info''}"
    by (simp add: lower_def lower_char_def)
  have i: "info_text (config fresh_bot) =
     ''Bot Configuration:'' @ [CHR 0x0A] @ ''- Model: gpt-x'' @ [CHR 0x0A] @
     ''- Temperature: 0.5'' @ [CHR 0x0A] @ ''- Max tokens: 200''"
    by (simp add: info_text_def fresh_bot_def py_str_def)
  have p: "conversations (snd (process_message answering_env ''A'' ''!INFO'' fresh_bot)) ''A'' = None"
    "fst (process_message answering_env ''A'' ''!INFO'' fresh_bot) = info_text (config fresh_bot)"
  proof -
    from commands_create_no_history[OF n, of "''!INFO''" answering_env] a(1)
    have "conversations (snd (process_message answering_env ''A'' ''!INFO'' fresh_bot)) ''A'' = None \<and>
          fst (process_message answering_env ''A'' ''!INFO'' fresh_bot) =
            (if lower ''!INFO'' = ''!clear'' then ''No conversation history found.''
             else if lower ''!INFO'' = ''!help'' then help_text
             else info_text (config fresh_bot))"
      by blast
    then show "conversations (snd (process_message answering_env ''A'' ''!INFO'' fresh_bot)) ''A'' = None"
      and "fst (process_message answering_env ''A'' ''!INFO'' fresh_bot) = info_text (config fresh_bot)"
      by (simp_all add: a(2))
  qed
  have q: "conversations (snd (process_message answering_env ''A'' ''Hello'' fresh_bot)) ''A'' \<noteq> None"
    using commands_create_no_history[OF n, of "''Hello''" answering_env] b by blast
  show ?thesis using n a(1) b p q i by simp
qed

subsection \<open>User directory\<close>

lemma remove_all_no_occurrence:
  "\<not> occurs old s \<Longrightarrow> remove_all old s = s"
  by (induction s) auto

lemma remove_all_prefix:
  "old \<noteq> [] \<Longrightarrow> remove_all old (old @ rest) = remove_all old rest"
  by (cases old) simp_all

lemma get_user_name_known:
  "user_details s u = Some n \<Longrightarrow> get_user_name e u s = (n, s)"
  by (simp add: get_user_name_def)

lemma get_user_name_unknown:
  assumes "user_details s u = None"
  shows "fst (get_user_name e u s) = remove_all ''whatsapp:'' u"
    and "truthy (twilio_account_sid e) \<and> truthy (twilio_auth_token e) \<and> twilio_client_ok e \<Longrightarrow>
           snd (get_user_name e u s) =
             save_user_details e (s\<lparr>user_details := (user_details s)(u \<mapsto> remove_all ''whatsapp:'' u)\<rparr>)"
    and "\<not> (truthy (twilio_account_sid e) \<and> truthy (twilio_auth_token e) \<and> twilio_client_ok e) \<Longrightarrow>
           snd (get_user_name e u s) = s"
  using assms by (auto simp add: get_user_name_def Let_def)

text \<open>
  C8, as stated, fails: with no Twilio credentials in the environment, the identifier
  "whatsapp:+15551234", unknown to the directory, resolves to "+15551234", but nothing is
  stored and nothing is written: the state is left as it was.
\<close>

theorem unseen_identifier_not_recorded_counterexample:
  "user_details fresh_bot ''whatsapp:+15551234'' = None \<and>
   fst (get_user_name answering_env ''whatsapp:+15551234'' fresh_bot) = ''+15551234'' \<and>
   user_details (snd (get_user_name answering_env ''whatsapp:+15551234'' fresh_bot))
     ''whatsapp:+15551234'' \<noteq> Some ''+15551234'' \<and>
   user_file (snd (get_user_name answering_env ''whatsapp:+15551234'' fresh_bot)) = None \<and>
   snd (get_user_name answering_env ''whatsapp:+15551234'' fresh_bot) = fresh_bot"
  by (simp add: get_user_name_def fresh_bot_def answering_env_def truthy_def Let_def)

text \<open>
  C8, amended: for an identifier not in the directory, \<open>get_user_name\<close> returns the identifier
  with every occurrence of "whatsapp:" deleted (for "whatsapp:" followed by a text without
  "whatsapp:", that text). When both Twilio credentials are set and the Twilio client can
  be constructed, it stores that name as the mapping, writes the directory to its file if
  the file can be written, and every later call returns the stored name without changing
  the state; otherwise it leaves the state as it was. An identifier that is recorded is
  never resolved again: the stored name is returned and the state is unchanged.
\<close>

theorem user_name_resolution:
  "(user_details s u = None \<longrightarrow>
      fst (get_user_name e u s) = remove_all ''whatsapp:'' u \<and>
      (truthy (twilio_account_sid e) \<and> truthy (twilio_auth_token e) \<and> twilio_client_ok e \<longrightarrow>
         user_details (snd (get_user_name e u s)) =
           (user_details s)(u \<mapsto> remove_all ''whatsapp:'' u) \<and>
         (user_file_writable e \<longrightarrow>
            user_file (snd (get_user_name e u s)) =
              Some ((user_details s)(u \<mapsto> remove_all ''whatsapp:'' u))) \<and>
         get_user_name e' u (snd (get_user_name e u s)) =
           (remove_all ''whatsapp:'' u, snd (get_user_name e u s))) \<and>
      (\<not> (truthy (twilio_account_sid e) \<and> truthy (twilio_auth_token e) \<and> twilio_client_ok e) \<longrightarrow>
         snd (get_user_name e u s) = s)) \<and>
   (user_details s u = Some n \<longrightarrow> get_user_name e' u s = (n, s)) \<and>
   (\<not> occurs ''whatsapp:'' rest \<longrightarrow> remove_all ''whatsapp:'' (''whatsapp:'' @ rest) = rest)"
proof (intro conjI impI)
  assume n: "user_details s u = None"
  show "fst (get_user_name e u s) = remove_all ''whatsapp:'' u"
    by (rule get_user_name_unknown(1)[OF n])
  {
    assume t: "truthy (twilio_account_sid e) \<and> truthy (twilio_auth_token e) \<and> twilio_client_ok e"
    note st = get_user_name_unknown(2)[OF n t]
    show d: "user_details (snd (get_user_name e u s)) =
           (user_details s)(u \<mapsto> remove_all ''whatsapp:'' u)"
      by (simp add: st save_user_details_def)
    show "get_user_name e' u (snd (get_user_name e u s)) =
           (remove_all ''whatsapp:'' u, snd (get_user_name e u s))"
      by (rule get_user_name_known) (simp add: d)
    assume "user_file_writable e"
    then show "user_file (snd (get_user_name e u s)) =
              Some ((user_details s)(u \<mapsto> remove_all ''whatsapp:'' u))"
      by (simp add: st save_user_details_def)
  }
  assume "\<not> (truthy (twilio_account_sid e) \<and> truthy (twilio_auth_token e) \<and> twilio_client_ok e)"
  then show "snd (get_user_name e u s) = s"
    by (rule get_user_name_unknown(3)[OF n])
next
  assume "user_details s u = Some n"
  then show "get_user_name e' u s = (n, s)"
    by (rule get_user_name_known)
next
  assume "\<not> occurs ''whatsapp:'' rest"
  then have "remove_all ''whatsapp:'' rest = rest"
    by (rule remove_all_no_occurrence)
  then show "remove_all ''whatsapp:'' (''whatsapp:'' @ rest) = rest"
    using remove_all_prefix[of "''whatsapp:''" rest] by simp
qed

text \<open>One unseen identifier with and without Twilio credentials, and one recorded identifier.\<close>

theorem user_name_resolution_witness:
  "user_details fresh_bot ''whatsapp:+15551234'' = None \<and>
   truthy (twilio_account_sid twilio_env) \<and> truthy (twilio_auth_token twilio_env) \<and>
   twilio_client_ok twilio_env \<and> user_file_writable twilio_env \<and>
   \<not> occurs ''whatsapp:'' ''+15551234'' \<and>
   fst (get_user_name twilio_env ''whatsapp:+15551234'' fresh_bot) = ''+15551234'' \<and>
   user_details (snd (get_user_name twilio_env ''whatsapp:+15551234'' fresh_bot)) =
     [''whatsapp:+15551234'' \<mapsto> ''+15551234''] \<and>
   user_file (snd (get_user_name twilio_env ''whatsapp:+15551234'' fresh_bot)) =
     Some [''whatsapp:+15551234'' \<mapsto> ''+15551234''] \<and>
   get_user_name answering_env ''whatsapp:+15551234''
       (snd (get_user_name twilio_env ''whatsapp:+15551234'' fresh_bot)) =
     (''+15551234'', snd (get_user_name twilio_env ''whatsapp:+15551234'' fresh_bot)) \<and>
   \<not> (truthy (twilio_account_sid answering_env) \<and> truthy (twilio_auth_token answering_env) \<and>
      twilio_client_ok answering_env) \<and>
   snd (get_user_name answering_env ''whatsapp:+15551234'' fresh_bot) = fresh_bot \<and>
   user_details known_bot ''whatsapp:+15551234'' = Some ''Ann'' \<and>
   get_user_name twilio_env ''whatsapp:+15551234'' known_bot = (''Ann'', known_bot)"
proof -
  let ?u = "''whatsapp:+15551234''"
  have n: "user_details fresh_bot ?u = None" and d: "user_details fresh_bot = Map.empty"
    by (simp_all add: fresh_bot_def)
  have t: "truthy (twilio_account_sid twilio_env) \<and> truthy (twilio_auth_token twilio_env) \<and>
           twilio_client_ok twilio_env"
    and w: "user_file_writable twilio_env"
    by (simp_all add: twilio_env_def answering_env_def truthy_def)
  have a: "\<not> (truthy (twilio_account_sid answering_env) \<and>
              truthy (twilio_auth_token answering_env) \<and> twilio_client_ok answering_env)"
    by (simp add: answering_env_def truthy_def)
  have o: "\<not> occurs ''whatsapp:'' ''+15551234''"
    by simp
  have k: "user_details known_bot ?u = Some ''Ann''"
    by (simp add: known_bot_def)
  have r: "remove_all ''whatsapp:'' ?u = ''+15551234''"
    using user_name_resolution[of fresh_bot ?u twilio_env answering_env "''Ann''" "''+15551234''"] o
    by simp
  have p1: "fst (get_user_name twilio_env ?u fresh_bot) = remove_all ''whatsapp:'' ?u"
    and p2: "user_details (snd (get_user_name twilio_env ?u fresh_bot)) =
           (user_details fresh_bot)(?u \<mapsto> remove_all ''whatsapp:'' ?u)"
    and p3: "user_file (snd (get_user_name twilio_env ?u fresh_bot)) =
              Some ((user_details fresh_bot)(?u \<mapsto> remove_all ''whatsapp:'' ?u))"
    and p4: "get_user_name answering_env ?u (snd (get_user_name twilio_env ?u fresh_bot)) =
           (remove_all ''whatsapp:'' ?u, snd (get_user_name twilio_env ?u fresh_bot))"
    using user_name_resolution[of fresh_bot ?u twilio_env answering_env "''Ann''" "''+15551234''"] n t w
    by blast+
  have p5: "snd (get_user_name answering_env ?u fresh_bot) = fresh_bot"
    using user_name_resolution[of fresh_bot ?u answering_env answering_env "''Ann''" "''+15551234''"] n a
    by blast
  have p6: "get_user_name twilio_env ?u known_bot = (''Ann'', known_bot)"
    using user_name_resolution[of known_bot ?u answering_env twilio_env "''Ann''" "''+15551234''"] k
    by blast
  show ?thesis
    using n t w a o k p1 p2 p3 p4 p5 p6 by (simp add: r d)
qed

end
